theory Spec2Isabelle
  imports Main "HOL-Library.Sublist"
begin

section \<open>Data model of \<^verbatim>\<open>app.py\<close>\<close>

text \<open>
  A pandas DataFrame is kept column-major: an ordered list of named columns, each with
  its values in row order. The cell type \<open>'v\<close> is left open (numbers, timestamps,
  text). \<^verbatim>\<open>df.columns\<close> is the list of names.
\<close>

type_synonym 'v dataframe = "(string \<times> 'v list) list"

text \<open>The exceptions that leave the functions of \<^verbatim>\<open>app.py\<close> uncaught.\<close>

datatype py_error =
    KeyError "string option"
  | ValueError string
  | InvalidIndexError

text \<open>
  A widget value: \<^verbatim>\<open>st.selectbox\<close> returns one of the options or \<^verbatim>\<open>None\<close>.
  \<open>py_str\<close> is what an f-string prints for it.
\<close>

fun py_str :: "string option \<Rightarrow> string" where
  "py_str None = ''None''"
| "py_str (Some s) = s"

definition columns :: "'v dataframe \<Rightarrow> string list" where
  "columns df = map fst df"

text \<open>
  \<^verbatim>\<open>d[k]\<close> for a key \<open>k\<close> that may be \<^verbatim>\<open>None\<close>: the value stored under the key, or
  KeyError. It serves for an entry of a \<^verbatim>\<open>dict\<close> and for a column of a DataFrame
  whose column labels are pairwise different, which is what the decoders of pandas
  return. For a DataFrame with a repeated label pandas returns all the columns of that
  label and not one of them; the statements below that read a column assume
  \<open>distinct (columns data)\<close>.
\<close>

definition getitem :: "(string \<times> 'a) list \<Rightarrow> string option \<Rightarrow> py_error + 'a" where
  "getitem d k =
     (case k of
        None \<Rightarrow> Inl (KeyError None)
      | Some s \<Rightarrow> (case map_of d s of None \<Rightarrow> Inl (KeyError k) | Some v \<Rightarrow> Inr v))"

text \<open>
  A Python \<^verbatim>\<open>dict\<close> keeps its keys in insertion order; \<^verbatim>\<open>d[k] = v\<close> on a key
  already present replaces the value and leaves the key where it was.
\<close>

fun dict_set :: "('k \<times> 'a) list \<Rightarrow> 'k \<Rightarrow> 'a \<Rightarrow> ('k \<times> 'a) list" where
  "dict_set [] k v = [(k, v)]"
| "dict_set ((k', v') # kvs) k v =
     (if k' = k then (k, v) # kvs else (k', v') # dict_set kvs k v)"

text \<open>\<^verbatim>\<open>s.endswith(suf)\<close>: exact, case-sensitive comparison of the last characters.\<close>

definition endswith :: "string \<Rightarrow> string \<Rightarrow> bool" where
  "endswith s suf =
     (length suf \<le> length s \<and> drop (length s - length suf) s = suf)"

section \<open>\<^verbatim>\<open>load_dataframes\<close>\<close>

text \<open>
  An uploaded file has a declared name and a content. The two decoders
  \<^verbatim>\<open>pd.read_csv\<close> and \<^verbatim>\<open>pd.read_excel\<close> are library code: they are parameters
  \<open>read_csv\<close>, \<open>read_excel\<close> that return the DataFrame (\<open>Inr\<close>) or raise an
  exception whose text is given (\<open>Inl\<close>).
\<close>

record 'c uploaded_file =
  name :: string
  content :: 'c

type_synonym ('c, 'v) reader = "'c uploaded_file \<Rightarrow> string + 'v dataframe"

text \<open>
  The state of the loop: the dictionary \<^verbatim>\<open>dataframes\<close> and the messages handed to
  \<^verbatim>\<open>st.error\<close> so far, oldest first. \<open>load_file\<close> is one pass through the body of
  the \<^verbatim>\<open>for\<close> loop, with its \<^verbatim>\<open>try\<close>/\<^verbatim>\<open>except\<close> and its \<^verbatim>\<open>continue\<close>.
\<close>

type_synonym 'v loaded = "(string \<times> 'v dataframe) list \<times> string list"

definition load_file ::
  "('c, 'v) reader \<Rightarrow> ('c, 'v) reader \<Rightarrow> 'c uploaded_file \<Rightarrow> 'v loaded \<Rightarrow> 'v loaded" where
  "load_file read_csv read_excel uploaded_file st =
     (let (dataframes, errors) = st in
      if endswith (name uploaded_file) ''.csv'' then
        (case read_csv uploaded_file of
           Inr df \<Rightarrow> (dict_set dataframes (name uploaded_file) df, errors)
         | Inl e \<Rightarrow>
             (dataframes, errors @ [''Error loading '' @ name uploaded_file @ '': '' @ e]))
      else if endswith (name uploaded_file) ''.xlsx'' then
        (case read_excel uploaded_file of
           Inr df \<Rightarrow> (dict_set dataframes (name uploaded_file) df, errors)
         | Inl e \<Rightarrow>
             (dataframes, errors @ [''Error loading '' @ name uploaded_file @ '': '' @ e]))
      else
        (dataframes, errors @ [''Unsupported file type: '' @ name uploaded_file]))"

fun load_loop ::
  "('c, 'v) reader \<Rightarrow> ('c, 'v) reader \<Rightarrow> 'c uploaded_file list \<Rightarrow> 'v loaded \<Rightarrow> 'v loaded" where
  "load_loop read_csv read_excel [] st = st"
| "load_loop read_csv read_excel (uploaded_file # rest) st =
     load_loop read_csv read_excel rest (load_file read_csv read_excel uploaded_file st)"

definition load_dataframes ::
  "('c, 'v) reader \<Rightarrow> ('c, 'v) reader \<Rightarrow> 'c uploaded_file list \<Rightarrow> 'v loaded" where
  "load_dataframes read_csv read_excel uploaded_files =
     load_loop read_csv read_excel uploaded_files ([], [])"

section \<open>\<^verbatim>\<open>plot_data\<close>\<close>

text \<open>
  A plotly figure, as far as \<^verbatim>\<open>plot_data\<close> touches it: the traces
  (\<^verbatim>\<open>go.Scatter(x=..., y=..., mode=...)\<close>) and the properties of the layout that
  \<^verbatim>\<open>update_layout\<close> sets. A property that was never set is \<open>None\<close>; the keyword
  \<^verbatim>\<open>xaxis=dict(gridcolor=..., zerolinecolor=...)\<close> sets the two properties
  \<open>xaxis_gridcolor\<close> and \<open>xaxis_zerolinecolor\<close>, and likewise for \<^verbatim>\<open>yaxis\<close>.
\<close>

record 'v scatter =
  trace_x :: "'v list"
  trace_y :: "'v list"
  trace_mode :: string

record layout =
  title :: "string option"
  xaxis_title :: "string option"
  yaxis_title :: "string option"
  plot_bgcolor :: "string option"
  paper_bgcolor :: "string option"
  font_color :: "string option"
  xaxis_gridcolor :: "string option"
  xaxis_zerolinecolor :: "string option"
  yaxis_gridcolor :: "string option"
  yaxis_zerolinecolor :: "string option"

record 'v figure =
  fig_data :: "'v scatter list"
  fig_layout :: layout

text \<open>\<^verbatim>\<open>go.Figure(data=...)\<close>: the given traces and a layout with nothing set.\<close>

definition Figure :: "'v scatter list \<Rightarrow> 'v figure" where
  "Figure traces =
     \<lparr>fig_data = traces,
      fig_layout = \<lparr>title = None, xaxis_title = None, yaxis_title = None,
        plot_bgcolor = None, paper_bgcolor = None, font_color = None,
        xaxis_gridcolor = None, xaxis_zerolinecolor = None,
        yaxis_gridcolor = None, yaxis_zerolinecolor = None\<rparr>\<rparr>"

text \<open>
  \<^verbatim>\<open>go.Figure(data=go.Scatter(x=data[x_axis], y=data[y_axis], mode=mode))\<close>: the two
  columns are read in this order, and a missing one raises KeyError.
\<close>

definition scatter_figure ::
  "'v dataframe \<Rightarrow> string option \<Rightarrow> string option \<Rightarrow> string \<Rightarrow> py_error + 'v figure" where
  "scatter_figure data x_axis y_axis mode =
     (case getitem data x_axis of
        Inl err \<Rightarrow> Inl err
      | Inr xs \<Rightarrow>
          (case getitem data y_axis of
             Inl err \<Rightarrow> Inl err
           | Inr ys \<Rightarrow> Inr (Figure [\<lparr>trace_x = xs, trace_y = ys, trace_mode = mode\<rparr>])))"

text \<open>The call \<^verbatim>\<open>fig.update_layout(...)\<close> of \<^verbatim>\<open>plot_data\<close>, with its constants.\<close>

definition update_layout ::
  "'v figure \<Rightarrow> string \<Rightarrow> string option \<Rightarrow> string option \<Rightarrow> 'v figure" where
  "update_layout fig plot_title x_axis y_axis =
     fig\<lparr>fig_layout := (fig_layout fig)
       \<lparr>title := Some plot_title,
        xaxis_title := x_axis,
        yaxis_title := y_axis,
        plot_bgcolor := Some ''#111111'',
        paper_bgcolor := Some ''#111111'',
        font_color := Some ''#FFFFFF'',
        xaxis_gridcolor := Some ''#4a4a4a'',
        xaxis_zerolinecolor := Some ''#4a4a4a'',
        yaxis_gridcolor := Some ''#4a4a4a'',
        yaxis_zerolinecolor := Some ''#4a4a4a''\<rparr>\<rparr>"

text \<open>
  \<open>plot_data\<close> returns the figure or the exception that left it, together with the
  messages it handed to \<^verbatim>\<open>st.error\<close>. The values chosen in a select box arrive
  as \<open>string option\<close>. On an unknown plot type the function returns before
  \<^verbatim>\<open>update_layout\<close> is reached.
\<close>

definition plot_data ::
  "'v dataframe \<Rightarrow> string option \<Rightarrow> string option \<Rightarrow> string \<Rightarrow> string option
     \<Rightarrow> (py_error + 'v figure) \<times> string list" where
  "plot_data data x_axis y_axis plot_title plot_type =
     (if plot_type = Some ''Line Plot'' then
        (case scatter_figure data x_axis y_axis ''lines'' of
           Inl err \<Rightarrow> (Inl err, [])
         | Inr fig \<Rightarrow> (Inr (update_layout fig plot_title x_axis y_axis), []))
      else if plot_type = Some ''Scatter Plot'' then
        (case scatter_figure data x_axis y_axis ''markers'' of
           Inl err \<Rightarrow> (Inl err, [])
         | Inr fig \<Rightarrow> (Inr (update_layout fig plot_title x_axis y_axis), []))
      else
        (Inr (Figure []), [''Unsupported plot type: '' @ py_str plot_type]))"

section \<open>\<^verbatim>\<open>main\<close>\<close>

subsection \<open>The column catalog\<close>

text \<open>
  \<^verbatim>\<open>pd.concat(frames, ignore_index=True).columns\<close>. The call is pandas code; what is
  kept of it is how it combines the column indexes of the frames (an outer join, not
  sorted): no frame at all raises ValueError; frames whose column indexes are all equal
  keep that index; otherwise the indexes are run through in order and every label is
  kept the first time it is seen (\<open>unique\<close>, the loop over a \<^verbatim>\<open>seen\<close> set), which
  needs every index free of repeated labels. The rows of the combined frame are never
  read by \<^verbatim>\<open>main\<close>.
\<close>

definition unique :: "'a list \<Rightarrow> 'a list" where
  "unique xs = foldl (\<lambda>uniques val. if val \<in> set uniques then uniques else uniques @ [val]) [] xs"

definition concat_columns :: "'v dataframe list \<Rightarrow> py_error + string list" where
  "concat_columns frames =
     (case frames of
        [] \<Rightarrow> Inl (ValueError ''No objects to concatenate'')
      | first # others \<Rightarrow>
          if list_all (\<lambda>df. columns df = columns first) others then Inr (columns first)
          else if list_all (\<lambda>df. distinct (columns df)) frames then
            Inr (unique (concat (map columns frames)))
          else Inl InvalidIndexError)"

text \<open>
  \<^verbatim>\<open>combined_data = pd.concat(dataframes.values(), ignore_index=True)\<close> and
  \<^verbatim>\<open>available_columns = combined_data.columns\<close>.
\<close>

definition available_columns :: "(string \<times> 'v dataframe) list \<Rightarrow> py_error + string list" where
  "available_columns dataframes = concat_columns (map snd dataframes)"

subsection \<open>The widgets\<close>

text \<open>
  What the user did in the browser is the input of one run of \<^verbatim>\<open>main\<close>: the number
  of plots chosen in the sidebar, the value every \<^verbatim>\<open>st.selectbox\<close> returns (given
  the widget's key and the options offered in this run), and whether the button
  "Generate Plots" was pressed. Streamlit is not part of the program, so the select
  boxes are a parameter and nothing is assumed of them: \<^verbatim>\<open>main\<close> checks none of the
  values it gets, and a select box returns \<^verbatim>\<open>None\<close> when it has no option to offer
  or when it holds no selection.
\<close>

datatype widget_key =
    file_name_key nat
  | x_axis_key nat
  | y_axis_key nat
  | plot_type_key nat

record ui =
  num_plots :: nat
  selectbox :: "widget_key \<Rightarrow> string list \<Rightarrow> string option"
  button :: bool

subsection \<open>Plot configurations\<close>

text \<open>The dictionary appended to \<^verbatim>\<open>plot_configs\<close>, one field per key.\<close>

record 'v plot_config =
  cfg_file_name :: "string option"
  cfg_x_axis :: "string option"
  cfg_y_axis :: "string option"
  cfg_plot_type :: "string option"
  cfg_df :: "'v dataframe"
  cfg_title :: string

text \<open>
  One pass through the body of the first \<^verbatim>\<open>for i in range(num_plots)\<close> loop.
  \<^verbatim>\<open>dataframes[file_name]\<close> raises KeyError when the select box returned
  \<^verbatim>\<open>None\<close>.
\<close>

definition configure_plot ::
  "ui \<Rightarrow> (string \<times> 'v dataframe) list \<Rightarrow> nat \<Rightarrow> py_error + 'v plot_config" where
  "configure_plot u dataframes i =
     (let file_name = selectbox u (file_name_key i) (map fst dataframes) in
      case getitem dataframes file_name of
        Inl err \<Rightarrow> Inl err
      | Inr df \<Rightarrow>
          (let x_axis = selectbox u (x_axis_key i) (columns df);
               y_axis = selectbox u (y_axis_key i) (columns df);
               plot_type = selectbox u (plot_type_key i) [''Line Plot'', ''Scatter Plot'']
           in Inr \<lparr>cfg_file_name = file_name,
                    cfg_x_axis = x_axis,
                    cfg_y_axis = y_axis,
                    cfg_plot_type = plot_type,
                    cfg_df = df,
                    cfg_title = py_str file_name @ '' - '' @ py_str y_axis @ '' vs ''
                      @ py_str x_axis\<rparr>))"

fun configure_plots ::
  "ui \<Rightarrow> (string \<times> 'v dataframe) list \<Rightarrow> nat list \<Rightarrow> py_error + 'v plot_config list" where
  "configure_plots u dataframes [] = Inr []"
| "configure_plots u dataframes (i # rest) =
     (case configure_plot u dataframes i of
        Inl err \<Rightarrow> Inl err
      | Inr config \<Rightarrow>
          (case configure_plots u dataframes rest of
             Inl err \<Rightarrow> Inl err
           | Inr configs \<Rightarrow> Inr (config # configs)))"

text \<open>
  The second loop, \<^verbatim>\<open>for i, config in enumerate(plot_configs)\<close>: the figures in slot
  order and the messages of \<^verbatim>\<open>st.error\<close>. An exception of \<^verbatim>\<open>plot_data\<close> is not
  caught, so it ends the loop. The call \<^verbatim>\<open>st.plotly_chart(fig)\<close> that displays each
  figure is Streamlit's and is not modelled: what is kept is the figure handed to it,
  not the errors the display itself can raise (such as the one for two equal charts
  without a key).
\<close>

fun generate_plots :: "'v plot_config list \<Rightarrow> (py_error + 'v figure list) \<times> string list" where
  "generate_plots [] = (Inr [], [])"
| "generate_plots (config # rest) =
     (case plot_data (cfg_df config) (cfg_x_axis config) (cfg_y_axis config) (cfg_title config)
             (cfg_plot_type config) of
        (Inl err, errors) \<Rightarrow> (Inl err, errors)
      | (Inr fig, errors) \<Rightarrow>
          (case generate_plots rest of
             (Inl err, errors') \<Rightarrow> (Inl err, errors @ errors')
           | (Inr figs, errors') \<Rightarrow> (Inr (fig # figs), errors @ errors')))"

subsection \<open>One run of the script\<close>

text \<open>
  What a run shows: the welcome view when nothing is uploaded, otherwise the previews of
  the loaded files, the plot configurations and the figures drawn (none until the
  button is pressed). An uncaught exception ends the run (\<open>Inl\<close>). The second
  component collects the messages of \<^verbatim>\<open>st.error\<close>. The display calls of the
  preview loop (\<^verbatim>\<open>st.write(name)\<close>, \<^verbatim>\<open>st.dataframe(df)\<close>) are Streamlit's and are
  not modelled: the previews are the loaded DataFrames, and an error of the display
  itself is outside the model.
\<close>

datatype 'v page =
    Welcome
  | Dashboard "(string \<times> 'v dataframe) list" "'v plot_config list" "'v figure list"

text \<open>
  The rest of \<^verbatim>\<open>main\<close> once \<^verbatim>\<open>available_columns\<close> is assigned, as a function of the
  local variables in scope at that point: the catalog, the widgets, the dictionary and
  the messages shown so far.
\<close>

definition main_body ::
  "string list \<Rightarrow> ui \<Rightarrow> (string \<times> 'v dataframe) list \<Rightarrow> string list
     \<Rightarrow> (py_error + 'v page) \<times> string list" where
  "main_body available_cols u dataframes errors =
     (case configure_plots u dataframes [0..<num_plots u] of
        Inl err \<Rightarrow> (Inl err, errors)
      | Inr plot_configs \<Rightarrow>
          if button u then
            (case generate_plots plot_configs of
               (Inl err, errors') \<Rightarrow> (Inl err, errors @ errors')
             | (Inr figs, errors') \<Rightarrow>
                 (Inr (Dashboard dataframes plot_configs figs), errors @ errors'))
          else (Inr (Dashboard dataframes plot_configs []), errors))"

definition main ::
  "('c, 'v) reader \<Rightarrow> ('c, 'v) reader \<Rightarrow> ui \<Rightarrow> 'c uploaded_file list
     \<Rightarrow> (py_error + 'v page) \<times> string list" where
  "main read_csv read_excel u uploaded_files =
     (if uploaded_files \<noteq> [] then
        (let (dataframes, errors) = load_dataframes read_csv read_excel uploaded_files in
         case available_columns dataframes of
           Inl err \<Rightarrow> (Inl err, errors)
         | Inr available_cols \<Rightarrow> main_body available_cols u dataframes errors)
      else (Inr Welcome, []))"

section \<open>Notions used in the statements\<close>

text \<open>
  A file is loaded when its name ends in one of the two recognised extensions and the
  decoder for that extension returns a DataFrame; \<open>decoded\<close> is that DataFrame.
  \<open>suffix\<close> is the library's notion of "ends with".
\<close>

definition decoded ::
  "('c, 'v) reader \<Rightarrow> ('c, 'v) reader \<Rightarrow> 'c uploaded_file \<Rightarrow> 'v dataframe option" where
  "decoded read_csv read_excel f =
     (if suffix ''.csv'' (name f) then
        (case read_csv f of Inr df \<Rightarrow> Some df | Inl e \<Rightarrow> None)
      else if suffix ''.xlsx'' (name f) then
        (case read_excel f of Inr df \<Rightarrow> Some df | Inl e \<Rightarrow> None)
      else None)"

text \<open>The message a file that is not loaded gets.\<close>

definition failure_message ::
  "('c, 'v) reader \<Rightarrow> ('c, 'v) reader \<Rightarrow> 'c uploaded_file \<Rightarrow> string" where
  "failure_message read_csv read_excel f =
     (if suffix ''.csv'' (name f) then
        ''Error loading '' @ name f @ '': '' @ (case read_csv f of Inl e \<Rightarrow> e | Inr df \<Rightarrow> [])
      else if suffix ''.xlsx'' (name f) then
        ''Error loading '' @ name f @ '': '' @ (case read_excel f of Inl e \<Rightarrow> e | Inr df \<Rightarrow> [])
      else ''Unsupported file type: '' @ name f)"

text \<open>
  Sample inputs: a decoder for files whose content is either a table or unreadable, and
  an upload of four files.
\<close>

definition table_reader :: "((string \<times> int list) list option, int) reader" where
  "table_reader f =
     (case content f of
        None \<Rightarrow> Inl ''No columns to parse from file''
      | Some df \<Rightarrow> Inr df)"

definition sample_uploads :: "(string \<times> int list) list option uploaded_file list" where
  "sample_uploads =
     [\<lparr>name = ''a.csv'', content = Some [(''t'', [0, 1, 2]), (''v1'', [5, 3, 4])]\<rparr>,
      \<lparr>name = ''notes.txt'', content = Some [(''t'', [0])]\<rparr>,
      \<lparr>name = ''b.xlsx'', content = None\<rparr>,
      \<lparr>name = ''c.xlsx'', content = Some [(''t'', [7, 8]), (''v2'', [1, 2])]\<rparr>]"

text \<open>Two uploads of the same name, and names whose extension is not recognised.\<close>

definition duplicate_uploads :: "(string \<times> int list) list option uploaded_file list" where
  "duplicate_uploads =
     [\<lparr>name = ''run.csv'', content = Some [(''t'', [0, 1]), (''v1'', [5, 3])]\<rparr>,
      \<lparr>name = ''other.csv'', content = Some [(''t'', [4])]\<rparr>,
      \<lparr>name = ''run.csv'', content = Some [(''t'', [0, 1, 2]), (''rpm'', [9, 9, 8])]\<rparr>]"

definition odd_uploads :: "(string \<times> int list) list option uploaded_file list" where
  "odd_uploads =
     [\<lparr>name = ''DATA.CSV'', content = Some [(''t'', [0, 1])]\<rparr>,
      \<lparr>name = ''a.csv'', content = Some [(''t'', [4])]\<rparr>,
      \<lparr>name = ''data.xls'', content = Some [(''t'', [0, 1, 2])]\<rparr>]"

text \<open>A small table: a time column and one signal.\<close>

definition sample_frame :: "int dataframe" where
  "sample_frame = [(''t'', [0, 1, 2]), (''v1'', [5, 3, 4])]"

text \<open>
  A user who takes, in slot \<open>i\<close>, the file at position \<open>i\<close>, its first column for X, its
  second for Y and the plot type at position \<open>i\<close> (the last option when there are
  fewer), with two slots, and presses the button; and the upload of the two files
  \<^verbatim>\<open>a.csv\<close> and \<^verbatim>\<open>b.csv\<close>.
\<close>

definition nth_option :: "nat \<Rightarrow> string list \<Rightarrow> string option" where
  "nth_option n options =
     (if options = [] then None else Some (options ! min n (length options - 1)))"

definition sample_ui :: ui where
  "sample_ui =
     \<lparr>num_plots = 2,
      selectbox = (\<lambda>key options.
        case key of
          file_name_key i \<Rightarrow> nth_option i options
        | x_axis_key i \<Rightarrow> nth_option 0 options
        | y_axis_key i \<Rightarrow> nth_option 1 options
        | plot_type_key i \<Rightarrow> nth_option i options),
      button = True\<rparr>"

definition scenario_uploads :: "(string \<times> int list) list option uploaded_file list" where
  "scenario_uploads =
     [\<lparr>name = ''a.csv'',
       content = Some [(''t'', [0, 1, 2, 3, 4]), (''v1'', [5, 3, 4, 8, 1])]\<rparr>,
      \<lparr>name = ''b.csv'',
       content = Some [(''t'', [0, 1, 2, 3, 4]), (''v2'', [7, 7, 2, 0, 6])]\<rparr>]"

text \<open>An upload that cannot be decoded, and a workbook whose sheet has no column.\<close>

definition unreadable_upload :: "(string \<times> int list) list option uploaded_file list" where
  "unreadable_upload = [\<lparr>name = ''empty.csv'', content = None\<rparr>]"

definition blank_upload :: "(string \<times> int list) list option uploaded_file list" where
  "blank_upload = [\<lparr>name = ''empty.xlsx'', content = Some []\<rparr>]"

text \<open>
  The workbook without columns uploaded together with \<^verbatim>\<open>a.csv\<close>, and the widgets
  of one slot after its source was changed from the workbook to \<^verbatim>\<open>a.csv\<close>: the
  source select box returns \<^verbatim>\<open>a.csv\<close>, and the X and Y select boxes, which had no
  option before, still hold no selection.
\<close>

definition mixed_uploads :: "(string \<times> int list) list option uploaded_file list" where
  "mixed_uploads =
     [\<lparr>name = ''empty.xlsx'', content = Some []\<rparr>,
      \<lparr>name = ''a.csv'', content = Some [(''t'', [0, 1, 2]), (''v1'', [5, 3, 4])]\<rparr>]"

definition stale_ui :: ui where
  "stale_ui =
     \<lparr>num_plots = 1,
      selectbox = (\<lambda>key options.
        case key of
          file_name_key i \<Rightarrow> nth_option 1 options
        | x_axis_key i \<Rightarrow> None
        | y_axis_key i \<Rightarrow> None
        | plot_type_key i \<Rightarrow> nth_option 0 options),
      button = True\<rparr>"

section \<open>Properties of the dictionary and of \<^verbatim>\<open>endswith\<close>\<close>

lemma endswith_suffix: "endswith s suf \<longleftrightarrow> suffix suf s"
proof
  assume "endswith s suf"
  then have "s = take (length s - length suf) s @ suf"
    by (metis append_take_drop_id endswith_def)
  then show "suffix suf s" by (rule suffixI)
next
  assume "suffix suf s"
  then obtain zs where "s = zs @ suf" by (rule suffixE)
  then show "endswith s suf" by (simp add: endswith_def)
qed

lemma dict_set_fresh: "k \<notin> fst ` set d \<Longrightarrow> dict_set d k v = d @ [(k, v)]"
  by (induction d) auto

lemma dict_set_keys: "fst ` set (dict_set d k v) = insert k (fst ` set d)"
  by (induction d k v rule: dict_set.induct) (auto simp: image_iff)

lemma dict_set_map_of: "map_of (dict_set d k v) = (map_of d)(k \<mapsto> v)"
  by (induction d) (auto simp: fun_eq_iff)

lemma dict_set_distinct: "distinct (map fst d) \<Longrightarrow> distinct (map fst (dict_set d k v))"
  by (induction d k v rule: dict_set.induct) (auto simp: dict_set_keys)

section \<open>Properties of \<^verbatim>\<open>load_dataframes\<close>\<close>

lemma load_file_decoded:
  "load_file rc rx f (d, e) =
     (case decoded rc rx f of
        Some df \<Rightarrow> (dict_set d (name f) df, e)
      | None \<Rightarrow> (d, e @ [failure_message rc rx f]))"
  by (simp add: load_file_def decoded_def failure_message_def endswith_suffix split: sum.splits)

lemma load_loop_errors:
  "snd (load_loop rc rx fs (d, e)) =
     e @ map (failure_message rc rx) (filter (\<lambda>f. decoded rc rx f = None) fs)"
  by (induction fs arbitrary: d e) (auto simp: load_file_decoded split: option.splits)

lemma load_loop_unique:
  "distinct (map fst d @ map name fs) \<Longrightarrow>
   fst (load_loop rc rx fs (d, e)) =
     d @ List.map_filter (\<lambda>f. map_option (Pair (name f)) (decoded rc rx f)) fs"
proof (induction fs arbitrary: d e)
  case Nil
  then show ?case by (simp add: List.map_filter_simps)
next
  case (Cons f fs)
  show ?case
  proof (cases "decoded rc rx f")
    case None
    with Cons.prems Cons.IH [of d] show ?thesis
      by (simp add: load_file_decoded List.map_filter_simps)
  next
    case (Some df)
    from Cons.prems have fresh: "name f \<notin> fst ` set d" by auto
    from Cons.prems have "distinct (map fst (d @ [(name f, df)]) @ map name fs)" by auto
    from Cons.IH [OF this] Some fresh show ?thesis
      by (simp add: load_file_decoded List.map_filter_simps dict_set_fresh)
  qed
qed

lemma failure_message_names: "sublist (name f) (failure_message rc rx f)"
  unfolding failure_message_def sublist_def
  by (metis append.assoc append_Nil2)

lemma load_loop_map_of:
  "map_of (fst (load_loop rc rx fs (d, e))) =
     map_of (rev (List.map_filter (\<lambda>f. map_option (Pair (name f)) (decoded rc rx f)) fs) @ d)"
proof (induction fs arbitrary: d e)
  case Nil
  then show ?case by (simp add: List.map_filter_simps)
next
  case (Cons f fs)
  show ?case
  proof (cases "decoded rc rx f")
    case None
    with Cons.IH [of d] show ?thesis
      by (simp add: load_file_decoded List.map_filter_simps)
  next
    case (Some df)
    with Cons.IH [of "dict_set d (name f) df" e] show ?thesis
      by (simp add: load_file_decoded List.map_filter_simps dict_set_map_of)
  qed
qed

lemma load_loop_keys:
  "fst ` set (fst (load_loop rc rx fs (d, e))) =
     fst ` set d \<union> name ` {f \<in> set fs. decoded rc rx f \<noteq> None}"
proof (induction fs arbitrary: d e)
  case Nil
  then show ?case by simp
next
  case (Cons f fs)
  show ?case
  proof (cases "decoded rc rx f")
    case None
    with Cons.IH [of d] show ?thesis
      by (auto simp: load_file_decoded)
  next
    case (Some df)
    with Cons.IH [of "dict_set d (name f) df" e] show ?thesis
      by (auto simp: load_file_decoded dict_set_keys)
  qed
qed

lemma load_loop_distinct:
  "distinct (map fst d) \<Longrightarrow> distinct (map fst (fst (load_loop rc rx fs (d, e))))"
proof (induction fs arbitrary: d e)
  case Nil
  then show ?case by simp
next
  case (Cons f fs)
  then show ?case
    by (cases "decoded rc rx f") (simp_all add: load_file_decoded dict_set_distinct)
qed

text \<open>
  Claim C1. When the uploaded files have pairwise different names, the dictionary
  returned by \<^verbatim>\<open>load_dataframes\<close> holds exactly the loaded files (recognised
  extension, content decoded), each under its name, in the order of the upload; every
  other file gets exactly one message, which contains its name, the messages in the
  order of the upload; and when no file is loaded the dictionary is empty, returned as
  a value.
\<close>

theorem load_dataframes_unique_names:
  assumes "distinct (map name files)"
  shows "fst (load_dataframes rc rx files) =
           List.map_filter (\<lambda>f. map_option (Pair (name f)) (decoded rc rx f)) files
       \<and> list_all2 (\<lambda>f msg. sublist (name f) msg)
           (filter (\<lambda>f. decoded rc rx f = None) files) (snd (load_dataframes rc rx files))
       \<and> ((\<forall>f \<in> set files. decoded rc rx f = None) \<longrightarrow>
            fst (load_dataframes rc rx files) = [])"
proof -
  have keys: "fst (load_dataframes rc rx files) =
      List.map_filter (\<lambda>f. map_option (Pair (name f)) (decoded rc rx f)) files"
    using assms load_loop_unique [of "[]" files rc rx "[]"]
    by (simp add: load_dataframes_def)
  have msgs: "snd (load_dataframes rc rx files) =
      map (failure_message rc rx) (filter (\<lambda>f. decoded rc rx f = None) files)"
    by (simp add: load_dataframes_def load_loop_errors)
  have "list_all2 (\<lambda>f msg. sublist (name f) msg)
          (filter (\<lambda>f. decoded rc rx f = None) files) (snd (load_dataframes rc rx files))"
    unfolding msgs by (simp add: list_all2_map2 list_all2_same failure_message_names)
  moreover have "(\<forall>f \<in> set files. decoded rc rx f = None) \<longrightarrow>
      fst (load_dataframes rc rx files) = []"
    unfolding keys by (simp add: List.map_filter_def)
  ultimately show ?thesis using keys by blast
qed

theorem load_dataframes_unique_names_witness:
  "distinct (map name sample_uploads)
   \<and> fst (load_dataframes table_reader table_reader sample_uploads) =
       [(''a.csv'', [(''t'', [0, 1, 2]), (''v1'', [5, 3, 4])]),
        (''c.xlsx'', [(''t'', [7, 8]), (''v2'', [1, 2])])]
   \<and> snd (load_dataframes table_reader table_reader sample_uploads) =
       [''Unsupported file type: notes.txt'',
        ''Error loading b.xlsx: No columns to parse from file'']"
proof -
  have d: "distinct (map name sample_uploads)"
    by (simp add: sample_uploads_def)
  have "fst (load_dataframes table_reader table_reader sample_uploads) =
      List.map_filter (\<lambda>f. map_option (Pair (name f)) (decoded table_reader table_reader f))
        sample_uploads"
    using load_dataframes_unique_names [OF d, of table_reader table_reader] by blast
  also have "\<dots> = [(''a.csv'', [(''t'', [0, 1, 2]), (''v1'', [5, 3, 4])]),
        (''c.xlsx'', [(''t'', [7, 8]), (''v2'', [1, 2])])]"
    by (simp add: sample_uploads_def List.map_filter_simps decoded_def table_reader_def
        suffix_to_prefix)
  finally have keys: "fst (load_dataframes table_reader table_reader sample_uploads) =
      [(''a.csv'', [(''t'', [0, 1, 2]), (''v1'', [5, 3, 4])]),
        (''c.xlsx'', [(''t'', [7, 8]), (''v2'', [1, 2])])]" .
  have msgs: "snd (load_dataframes table_reader table_reader sample_uploads) =
       [''Unsupported file type: notes.txt'',
        ''Error loading b.xlsx: No columns to parse from file'']"
    by (simp add: load_dataframes_def load_file_def endswith_def sample_uploads_def
        table_reader_def)
  from d keys msgs show ?thesis by blast
qed

text \<open>
  Claim C9. Without the assumption that names are unique: the value kept under a name
  is the DataFrame of the last uploaded file of that name that was loaded (\<open>map_of\<close>
  returns the first entry of the reversed list of loaded files); the messages are as
  many as the files that were not loaded, so overwriting adds none; and the dictionary
  has one entry per name among the loaded files, hence at most as many entries as
  loaded files. The sample after it has three loaded files and two entries.
\<close>

theorem load_dataframes_last_write_wins:
  "map_of (fst (load_dataframes rc rx files)) =
     map_of (rev (List.map_filter (\<lambda>f. map_option (Pair (name f)) (decoded rc rx f)) files))
   \<and> length (snd (load_dataframes rc rx files)) =
       length (filter (\<lambda>f. decoded rc rx f = None) files)
   \<and> length (fst (load_dataframes rc rx files)) =
       card (name ` {f \<in> set files. decoded rc rx f \<noteq> None})
   \<and> length (fst (load_dataframes rc rx files)) \<le>
       length (filter (\<lambda>f. decoded rc rx f \<noteq> None) files)"
proof -
  let ?R = "load_dataframes rc rx files"
  have m: "map_of (fst ?R) =
      map_of (rev (List.map_filter (\<lambda>f. map_option (Pair (name f)) (decoded rc rx f)) files))"
    using load_loop_map_of [of rc rx files "[]" "[]"] by (simp add: load_dataframes_def)
  have e: "length (snd ?R) = length (filter (\<lambda>f. decoded rc rx f = None) files)"
    by (simp add: load_dataframes_def load_loop_errors)
  have dist: "distinct (map fst (fst ?R))"
    using load_loop_distinct [of "[]" rc rx files "[]"] by (simp add: load_dataframes_def)
  have keys: "set (map fst (fst ?R)) = name ` {f \<in> set files. decoded rc rx f \<noteq> None}"
    using load_loop_keys [of rc rx files "[]" "[]"] by (simp add: load_dataframes_def)
  have c: "length (fst ?R) = card (name ` {f \<in> set files. decoded rc rx f \<noteq> None})"
    using distinct_card [OF dist] keys by simp
  have "card (name ` {f \<in> set files. decoded rc rx f \<noteq> None}) \<le>
      card (set (filter (\<lambda>f. decoded rc rx f \<noteq> None) files))"
    by (simp add: card_image_le)
  also have "\<dots> \<le> length (filter (\<lambda>f. decoded rc rx f \<noteq> None) files)"
    by (rule card_length)
  finally have l: "length (fst ?R) \<le> length (filter (\<lambda>f. decoded rc rx f \<noteq> None) files)"
    using c by simp
  from m e c l show ?thesis by blast
qed

theorem load_dataframes_last_write_wins_witness:
  "\<not> distinct (map name duplicate_uploads)
   \<and> length (filter (\<lambda>f. decoded table_reader table_reader f \<noteq> None) duplicate_uploads) = 3
   \<and> load_dataframes table_reader table_reader duplicate_uploads =
       ([(''run.csv'', [(''t'', [0, 1, 2]), (''rpm'', [9, 9, 8])]),
         (''other.csv'', [(''t'', [4])])], [])
   \<and> map_of (fst (load_dataframes table_reader table_reader duplicate_uploads)) ''run.csv'' =
       Some [(''t'', [0, 1, 2]), (''rpm'', [9, 9, 8])]"
proof -
  have a: "\<not> distinct (map name duplicate_uploads)"
    by (simp add: duplicate_uploads_def)
  have b: "length (filter (\<lambda>f. decoded table_reader table_reader f \<noteq> None) duplicate_uploads) = 3"
    by (simp add: duplicate_uploads_def decoded_def table_reader_def suffix_to_prefix)
  have c: "load_dataframes table_reader table_reader duplicate_uploads =
       ([(''run.csv'', [(''t'', [0, 1, 2]), (''rpm'', [9, 9, 8])]),
         (''other.csv'', [(''t'', [4])])], [])"
    by (simp add: load_dataframes_def load_file_def endswith_def duplicate_uploads_def
        table_reader_def)
  have "map_of (fst (load_dataframes table_reader table_reader duplicate_uploads)) ''run.csv'' =
      map_of (rev (List.map_filter
        (\<lambda>f. map_option (Pair (name f)) (decoded table_reader table_reader f))
        duplicate_uploads)) ''run.csv''"
    using load_dataframes_last_write_wins [of table_reader table_reader duplicate_uploads]
    by simp
  also have "\<dots> = Some [(''t'', [0, 1, 2]), (''rpm'', [9, 9, 8])]"
    by (simp add: duplicate_uploads_def List.map_filter_simps decoded_def table_reader_def
        suffix_to_prefix)
  finally show ?thesis using a b c by blast
qed

section \<open>Recognition of the extension\<close>

lemma failure_message_unsupported:
  "prefix ''Unsupported file type: '' (failure_message rc rx f) \<longleftrightarrow>
     \<not> suffix ''.csv'' (name f) \<and> \<not> suffix ''.xlsx'' (name f)"
  by (simp add: failure_message_def)

lemma unrecognized_not_decoded:
  "\<not> suffix ''.csv'' (name f) \<Longrightarrow> \<not> suffix ''.xlsx'' (name f) \<Longrightarrow> decoded rc rx f = None"
  by (simp add: decoded_def)

text \<open>
  Claim C10. The extension is recognised by an exact, case-sensitive comparison of the
  end of the name with \<^verbatim>\<open>.csv\<close> and \<^verbatim>\<open>.xlsx\<close> (\<open>endswith_suffix\<close> relates the
  comparison of the code to the library's \<open>suffix\<close>). The messages that start with
  \<^verbatim>\<open>Unsupported file type: \<close> are exactly one per file whose name ends in neither,
  in upload order and with the file's name; and no such name is a key of the dictionary
  returned. The sample after it uploads \<^verbatim>\<open>DATA.CSV\<close> and \<^verbatim>\<open>data.xls\<close>.
\<close>

theorem load_dataframes_unrecognized_extension:
  "filter (prefix ''Unsupported file type: '') (snd (load_dataframes rc rx files)) =
     map (\<lambda>f. ''Unsupported file type: '' @ name f)
       (filter (\<lambda>f. \<not> suffix ''.csv'' (name f) \<and> \<not> suffix ''.xlsx'' (name f)) files)
   \<and> (\<forall>f \<in> set files. \<not> suffix ''.csv'' (name f) \<and> \<not> suffix ''.xlsx'' (name f) \<longrightarrow>
        name f \<notin> fst ` set (fst (load_dataframes rc rx files)))"
proof -
  let ?bad = "\<lambda>f. \<not> suffix ''.csv'' (name f) \<and> \<not> suffix ''.xlsx'' (name f)"
  have msgs: "snd (load_dataframes rc rx files) =
      map (failure_message rc rx) (filter (\<lambda>f. decoded rc rx f = None) files)"
    by (simp add: load_dataframes_def load_loop_errors)
  have sel: "(\<lambda>f. decoded rc rx f = None \<and>
        prefix ''Unsupported file type: '' (failure_message rc rx f)) = ?bad"
    using unrecognized_not_decoded [of _ rc rx]
    by (auto simp: failure_message_unsupported fun_eq_iff)
  have "filter (prefix ''Unsupported file type: '') (snd (load_dataframes rc rx files)) =
      map (failure_message rc rx) (filter ?bad files)"
    unfolding msgs by (simp add: filter_map o_def sel conj_commute)
  also have "\<dots> = map (\<lambda>f. ''Unsupported file type: '' @ name f) (filter ?bad files)"
    by (rule map_cong) (auto simp: failure_message_def)
  finally have one: "filter (prefix ''Unsupported file type: '') (snd (load_dataframes rc rx files)) =
     map (\<lambda>f. ''Unsupported file type: '' @ name f) (filter ?bad files)" .
  have keys: "fst ` set (fst (load_dataframes rc rx files)) =
      name ` {f \<in> set files. decoded rc rx f \<noteq> None}"
    using load_loop_keys [of rc rx files "[]" "[]"] by (simp add: load_dataframes_def)
  have two: "\<forall>f \<in> set files. ?bad f \<longrightarrow> name f \<notin> fst ` set (fst (load_dataframes rc rx files))"
  proof (intro ballI impI)
    fix f assume "f \<in> set files" and bad: "?bad f"
    show "name f \<notin> fst ` set (fst (load_dataframes rc rx files))"
    proof
      assume "name f \<in> fst ` set (fst (load_dataframes rc rx files))"
      then obtain g where g: "g \<in> set files" "decoded rc rx g \<noteq> None" "name g = name f"
        unfolding keys by auto
      from g(2) have "suffix ''.csv'' (name g) \<or> suffix ''.xlsx'' (name g)"
        by (auto simp: decoded_def split: if_splits)
      with bad g(3) show False by simp
    qed
  qed
  from one two show ?thesis by blast
qed

theorem load_dataframes_unrecognized_extension_witness:
  "\<not> suffix ''.csv'' ''DATA.CSV'' \<and> \<not> suffix ''.xlsx'' ''DATA.CSV''
   \<and> \<not> suffix ''.csv'' ''data.xls'' \<and> \<not> suffix ''.xlsx'' ''data.xls''
   \<and> filter (prefix ''Unsupported file type: '')
        (snd (load_dataframes table_reader table_reader odd_uploads)) =
       [''Unsupported file type: DATA.CSV'', ''Unsupported file type: data.xls'']
   \<and> map fst (fst (load_dataframes table_reader table_reader odd_uploads)) = [''a.csv'']"
proof -
  have s: "\<not> suffix ''.csv'' ''DATA.CSV''" "\<not> suffix ''.xlsx'' ''DATA.CSV''"
    "\<not> suffix ''.csv'' ''data.xls''" "\<not> suffix ''.xlsx'' ''data.xls''"
    by (simp_all add: suffix_to_prefix)
  have "filter (prefix ''Unsupported file type: '')
        (snd (load_dataframes table_reader table_reader odd_uploads)) =
      map (\<lambda>f. ''Unsupported file type: '' @ name f)
       (filter (\<lambda>f. \<not> suffix ''.csv'' (name f) \<and> \<not> suffix ''.xlsx'' (name f)) odd_uploads)"
    using load_dataframes_unrecognized_extension [of table_reader table_reader odd_uploads]
    by blast
  also have "\<dots> = [''Unsupported file type: DATA.CSV'', ''Unsupported file type: data.xls'']"
    by (simp add: odd_uploads_def suffix_to_prefix)
  finally have m: "filter (prefix ''Unsupported file type: '')
        (snd (load_dataframes table_reader table_reader odd_uploads)) =
       [''Unsupported file type: DATA.CSV'', ''Unsupported file type: data.xls'']" .
  have k: "map fst (fst (load_dataframes table_reader table_reader odd_uploads)) = [''a.csv'']"
    by (simp add: load_dataframes_def load_file_def endswith_def odd_uploads_def
        table_reader_def)
  from s m k show ?thesis by blast
qed

section \<open>Properties of \<^verbatim>\<open>plot_data\<close>\<close>

text \<open>
  Claim C4. For every DataFrame, columns and title, a plot type other than
  \<^verbatim>\<open>Line Plot\<close> and \<^verbatim>\<open>Scatter Plot\<close> makes \<^verbatim>\<open>plot_data\<close> return a figure and not
  an exception: the figure \<^verbatim>\<open>go.Figure()\<close>, which has no trace, with exactly one
  message, which ends with the plot type. In the loop over the configurations such a
  plot adds this figure and this message, and the plots after it are drawn as they
  would be without it.
\<close>

theorem plot_data_unsupported_plot_type:
  assumes "plot_type \<noteq> Some ''Line Plot''" and "plot_type \<noteq> Some ''Scatter Plot''"
  shows "plot_data data x_axis y_axis plot_title plot_type =
           (Inr (Figure []), [''Unsupported plot type: '' @ py_str plot_type])
       \<and> fig_data (Figure [] :: 'v figure) = []
       \<and> (cfg_plot_type config = plot_type \<longrightarrow>
            generate_plots (config # rest) =
              (case generate_plots rest of
                 (Inl err, errors) \<Rightarrow>
                   (Inl err, (''Unsupported plot type: '' @ py_str plot_type) # errors)
               | (Inr figs, errors) \<Rightarrow>
                   (Inr (Figure [] # figs),
                    (''Unsupported plot type: '' @ py_str plot_type) # errors)))"
  using assms by (simp add: plot_data_def Figure_def split: prod.splits sum.splits)

theorem plot_data_unsupported_plot_type_witness:
  "Some ''Bar Chart'' \<noteq> Some ''Line Plot'' \<and> Some ''Bar Chart'' \<noteq> Some ''Scatter Plot''
   \<and> plot_data sample_frame (Some ''t'') (Some ''v1'') ''a.csv - v1 vs t'' (Some ''Bar Chart'') =
       (Inr (Figure []), [''Unsupported plot type: Bar Chart''])
   \<and> generate_plots
       [\<lparr>cfg_file_name = Some ''a.csv'', cfg_x_axis = Some ''t'', cfg_y_axis = Some ''v1'',
         cfg_plot_type = Some ''Bar Chart'', cfg_df = sample_frame,
         cfg_title = ''a.csv - v1 vs t''\<rparr>,
        \<lparr>cfg_file_name = Some ''a.csv'', cfg_x_axis = Some ''t'', cfg_y_axis = Some ''v1'',
         cfg_plot_type = Some ''Line Plot'', cfg_df = sample_frame,
         cfg_title = ''a.csv - v1 vs t''\<rparr>] =
       (Inr [Figure [],
             update_layout
               (Figure [\<lparr>trace_x = [0, 1, 2], trace_y = [5, 3, 4], trace_mode = ''lines''\<rparr>])
               ''a.csv - v1 vs t'' (Some ''t'') (Some ''v1'')],
        [''Unsupported plot type: Bar Chart''])"
proof -
  have c: "generate_plots
       [\<lparr>cfg_file_name = Some ''a.csv'', cfg_x_axis = Some ''t'', cfg_y_axis = Some ''v1'',
         cfg_plot_type = Some ''Bar Chart'', cfg_df = sample_frame,
         cfg_title = ''a.csv - v1 vs t''\<rparr>,
        \<lparr>cfg_file_name = Some ''a.csv'', cfg_x_axis = Some ''t'', cfg_y_axis = Some ''v1'',
         cfg_plot_type = Some ''Line Plot'', cfg_df = sample_frame,
         cfg_title = ''a.csv - v1 vs t''\<rparr>] =
       (Inr [Figure [],
             update_layout
               (Figure [\<lparr>trace_x = [0, 1, 2], trace_y = [5, 3, 4], trace_mode = ''lines''\<rparr>])
               ''a.csv - v1 vs t'' (Some ''t'') (Some ''v1'')],
        [''Unsupported plot type: Bar Chart''])"
    by (simp add: plot_data_def scatter_figure_def getitem_def sample_frame_def)
  have a: "Some ''Bar Chart'' \<noteq> Some ''Line Plot''" and b: "Some ''Bar Chart'' \<noteq> Some ''Scatter Plot''"
    by simp_all
  from plot_data_unsupported_plot_type [OF a b, THEN conjunct1, of sample_frame "Some ''t''"
      "Some ''v1''" "''a.csv - v1 vs t''"]
  show ?thesis using c by simp
qed

text \<open>
  Claim C5. For a DataFrame whose column labels are pairwise different and columns
  \<open>x\<close> and \<open>y\<close> of it, each label names one column only, and the line plot and the
  scatter plot both succeed without a message; each has one trace, whose x and y values
  are these two columns as stored (row order, nothing sorted); the two layouts (title,
  axis titles, colours) are equal; the title and axis titles are the arguments; and the
  only difference is the mode of the trace, \<^verbatim>\<open>lines\<close> against \<^verbatim>\<open>markers\<close>.
\<close>

theorem plot_data_line_and_scatter:
  assumes "distinct (columns data)"
    and "x \<in> set (columns data)" and "y \<in> set (columns data)"
  shows "\<exists>xs ys line_fig scatter_fig.
           map_of data x = Some xs \<and> map_of data y = Some ys
         \<and> (\<forall>zs. (x, zs) \<in> set data \<longrightarrow> zs = xs)
         \<and> (\<forall>zs. (y, zs) \<in> set data \<longrightarrow> zs = ys)
         \<and> plot_data data (Some x) (Some y) plot_title (Some ''Line Plot'') = (Inr line_fig, [])
         \<and> plot_data data (Some x) (Some y) plot_title (Some ''Scatter Plot'') =
             (Inr scatter_fig, [])
         \<and> fig_data line_fig = [\<lparr>trace_x = xs, trace_y = ys, trace_mode = ''lines''\<rparr>]
         \<and> fig_data scatter_fig = [\<lparr>trace_x = xs, trace_y = ys, trace_mode = ''markers''\<rparr>]
         \<and> fig_layout line_fig = fig_layout scatter_fig
         \<and> title (fig_layout line_fig) = Some plot_title
         \<and> xaxis_title (fig_layout line_fig) = Some x
         \<and> yaxis_title (fig_layout line_fig) = Some y"
proof -
  from assms(2,3) have "map_of data x \<noteq> None" and "map_of data y \<noteq> None"
    by (simp_all add: columns_def map_of_eq_None_iff)
  then obtain xs ys where xs: "map_of data x = Some xs" and ys: "map_of data y = Some ys"
    by blast
  from assms(1) have d: "distinct (map fst data)" by (simp add: columns_def)
  have ux: "\<forall>zs. (x, zs) \<in> set data \<longrightarrow> zs = xs"
    using map_of_is_SomeI [OF d] xs by fastforce
  have uy: "\<forall>zs. (y, zs) \<in> set data \<longrightarrow> zs = ys"
    using map_of_is_SomeI [OF d] ys by fastforce
  from xs ys have "plot_data data (Some x) (Some y) plot_title (Some ''Line Plot'') =
        (Inr (update_layout (Figure [\<lparr>trace_x = xs, trace_y = ys, trace_mode = ''lines''\<rparr>])
           plot_title (Some x) (Some y)), [])"
    and "plot_data data (Some x) (Some y) plot_title (Some ''Scatter Plot'') =
        (Inr (update_layout (Figure [\<lparr>trace_x = xs, trace_y = ys, trace_mode = ''markers''\<rparr>])
           plot_title (Some x) (Some y)), [])"
    by (simp_all add: plot_data_def scatter_figure_def getitem_def)
  with xs ys ux uy show ?thesis
    by (simp add: update_layout_def Figure_def)
qed

theorem plot_data_line_and_scatter_witness:
  "distinct (columns sample_frame)
   \<and> ''t'' \<in> set (columns sample_frame) \<and> ''v1'' \<in> set (columns sample_frame)
   \<and> (\<exists>lay.
        plot_data sample_frame (Some ''t'') (Some ''v1'') ''a.csv - v1 vs t'' (Some ''Line Plot'') =
          (Inr \<lparr>fig_data = [\<lparr>trace_x = [0, 1, 2], trace_y = [5, 3, 4], trace_mode = ''lines''\<rparr>],
                fig_layout = lay\<rparr>, [])
      \<and> plot_data sample_frame (Some ''t'') (Some ''v1'') ''a.csv - v1 vs t''
            (Some ''Scatter Plot'') =
          (Inr \<lparr>fig_data = [\<lparr>trace_x = [0, 1, 2], trace_y = [5, 3, 4], trace_mode = ''markers''\<rparr>],
                fig_layout = lay\<rparr>, [])
      \<and> title lay = Some ''a.csv - v1 vs t'')"
proof -
  have d: "distinct (columns sample_frame)"
    by (simp add: columns_def sample_frame_def)
  have a: "''t'' \<in> set (columns sample_frame)" and b: "''v1'' \<in> set (columns sample_frame)"
    by (simp_all add: columns_def sample_frame_def)
  from plot_data_line_and_scatter [OF d a b, of "''a.csv - v1 vs t''"]
  obtain xs ys line_fig scatter_fig where
    xs: "map_of sample_frame ''t'' = Some xs" and ys: "map_of sample_frame ''v1'' = Some ys"
    and l: "plot_data sample_frame (Some ''t'') (Some ''v1'') ''a.csv - v1 vs t''
        (Some ''Line Plot'') = (Inr line_fig, [])"
    and s: "plot_data sample_frame (Some ''t'') (Some ''v1'') ''a.csv - v1 vs t''
        (Some ''Scatter Plot'') = (Inr scatter_fig, [])"
    and ld: "fig_data line_fig = [\<lparr>trace_x = xs, trace_y = ys, trace_mode = ''lines''\<rparr>]"
    and sd: "fig_data scatter_fig = [\<lparr>trace_x = xs, trace_y = ys, trace_mode = ''markers''\<rparr>]"
    and lay: "fig_layout line_fig = fig_layout scatter_fig"
    and t: "title (fig_layout line_fig) = Some ''a.csv - v1 vs t''"
    by blast
  from xs have xs': "xs = [0, 1, 2]" by (simp add: sample_frame_def)
  from ys have ys': "ys = [5, 3, 4]" by (simp add: sample_frame_def)
  have "line_fig = \<lparr>fig_data = [\<lparr>trace_x = [0, 1, 2], trace_y = [5, 3, 4], trace_mode = ''lines''\<rparr>],
      fig_layout = fig_layout line_fig\<rparr>"
    using ld xs' ys' by (cases line_fig) simp
  moreover have "scatter_fig =
      \<lparr>fig_data = [\<lparr>trace_x = [0, 1, 2], trace_y = [5, 3, 4], trace_mode = ''markers''\<rparr>],
       fig_layout = fig_layout line_fig\<rparr>"
    using sd lay xs' ys' by (cases scatter_fig) simp
  ultimately show ?thesis using d a b l s t by metis
qed

text \<open>
  Claim C8, as amended. A figure that \<^verbatim>\<open>plot_data\<close> returns for the plot type
  \<^verbatim>\<open>Line Plot\<close> or \<^verbatim>\<open>Scatter Plot\<close> has the dark theme, whatever the DataFrame, the
  columns and the title: plot and paper background \<^verbatim>\<open>#111111\<close>, font colour
  \<^verbatim>\<open>#FFFFFF\<close>, grid and zero lines of both axes \<^verbatim>\<open>#4a4a4a\<close>. For any other plot type
  the function returns \<^verbatim>\<open>go.Figure()\<close> before the layout is updated, so that figure
  has no colour set: the claim as stated, for every figure returned regardless of the
  mode, fails there, as the evaluation after the sample shows.
\<close>

theorem plot_data_dark_theme:
  assumes "fst (plot_data data x_axis y_axis plot_title plot_type) = Inr fig"
  shows "(plot_type = Some ''Line Plot'' \<or> plot_type = Some ''Scatter Plot'' \<longrightarrow>
            plot_bgcolor (fig_layout fig) = Some ''#111111''
          \<and> paper_bgcolor (fig_layout fig) = Some ''#111111''
          \<and> font_color (fig_layout fig) = Some ''#FFFFFF''
          \<and> xaxis_gridcolor (fig_layout fig) = Some ''#4a4a4a''
          \<and> xaxis_zerolinecolor (fig_layout fig) = Some ''#4a4a4a''
          \<and> yaxis_gridcolor (fig_layout fig) = Some ''#4a4a4a''
          \<and> yaxis_zerolinecolor (fig_layout fig) = Some ''#4a4a4a'')
       \<and> (plot_type \<noteq> Some ''Line Plot'' \<and> plot_type \<noteq> Some ''Scatter Plot'' \<longrightarrow>
            fig = Figure [])"
  using assms
  by (auto simp: plot_data_def update_layout_def split: sum.splits if_splits)

theorem plot_data_dark_theme_witness:
  "fst (plot_data sample_frame (Some ''t'') (Some ''v1'') ''a.csv - v1 vs t'' (Some ''Scatter Plot''))
     = Inr \<lparr>fig_data = [\<lparr>trace_x = [0, 1, 2], trace_y = [5, 3, 4], trace_mode = ''markers''\<rparr>],
            fig_layout = \<lparr>title = Some ''a.csv - v1 vs t'', xaxis_title = Some ''t'',
              yaxis_title = Some ''v1'', plot_bgcolor = Some ''#111111'',
              paper_bgcolor = Some ''#111111'', font_color = Some ''#FFFFFF'',
              xaxis_gridcolor = Some ''#4a4a4a'', xaxis_zerolinecolor = Some ''#4a4a4a'',
              yaxis_gridcolor = Some ''#4a4a4a'', yaxis_zerolinecolor = Some ''#4a4a4a''\<rparr>\<rparr>
   \<and> plot_bgcolor (fig_layout (projr (fst (plot_data sample_frame (Some ''t'') (Some ''v1'')
        ''a.csv - v1 vs t'' (Some ''Scatter Plot''))))) = Some ''#111111''"
proof -
  have e: "fst (plot_data sample_frame (Some ''t'') (Some ''v1'') ''a.csv - v1 vs t''
      (Some ''Scatter Plot''))
     = Inr \<lparr>fig_data = [\<lparr>trace_x = [0, 1, 2], trace_y = [5, 3, 4], trace_mode = ''markers''\<rparr>],
            fig_layout = \<lparr>title = Some ''a.csv - v1 vs t'', xaxis_title = Some ''t'',
              yaxis_title = Some ''v1'', plot_bgcolor = Some ''#111111'',
              paper_bgcolor = Some ''#111111'', font_color = Some ''#FFFFFF'',
              xaxis_gridcolor = Some ''#4a4a4a'', xaxis_zerolinecolor = Some ''#4a4a4a'',
              yaxis_gridcolor = Some ''#4a4a4a'', yaxis_zerolinecolor = Some ''#4a4a4a''\<rparr>\<rparr>"
    by (simp add: plot_data_def scatter_figure_def getitem_def update_layout_def Figure_def
        sample_frame_def)
  from plot_data_dark_theme [OF e] have
    "plot_bgcolor (fig_layout (projr (fst (plot_data sample_frame (Some ''t'') (Some ''v1'')
        ''a.csv - v1 vs t'' (Some ''Scatter Plot''))))) = Some ''#111111''"
    unfolding e by simp
  with e show ?thesis by blast
qed

theorem plot_data_dark_theme_counterexample:
  "fst (plot_data sample_frame (Some ''t'') (Some ''v1'') ''a.csv - v1 vs t'' (Some ''Bar Chart''))
     = Inr (Figure [])
   \<and> plot_bgcolor (fig_layout (Figure [] :: int figure)) = None
   \<and> paper_bgcolor (fig_layout (Figure [] :: int figure)) = None
   \<and> font_color (fig_layout (Figure [] :: int figure)) = None
   \<and> xaxis_gridcolor (fig_layout (Figure [] :: int figure)) = None
   \<and> yaxis_gridcolor (fig_layout (Figure [] :: int figure)) = None"
  by (simp add: plot_data_def Figure_def)

section \<open>Properties of \<^verbatim>\<open>main\<close>\<close>

lemma configure_plot_Inr:
  assumes "configure_plot u dfs i = Inr c"
  shows "cfg_file_name c = selectbox u (file_name_key i) (map fst dfs)"
    and "getitem dfs (cfg_file_name c) = Inr (cfg_df c)"
    and "cfg_x_axis c = selectbox u (x_axis_key i) (columns (cfg_df c))"
    and "cfg_y_axis c = selectbox u (y_axis_key i) (columns (cfg_df c))"
    and "cfg_plot_type c = selectbox u (plot_type_key i) [''Line Plot'', ''Scatter Plot'']"
    and "cfg_title c =
      py_str (cfg_file_name c) @ '' - '' @ py_str (cfg_y_axis c) @ '' vs '' @ py_str (cfg_x_axis c)"
  using assms by (auto simp: configure_plot_def Let_def split: sum.splits)

lemma configure_plots_Inr:
  "configure_plots u dfs slots = Inr cs \<Longrightarrow>
   list_all2 (\<lambda>i c. configure_plot u dfs i = Inr c) slots cs"
  by (induction slots arbitrary: cs) (auto split: sum.splits)

lemma configure_plots_range:
  assumes "configure_plots u dfs [0..<n] = Inr cs"
  shows "length cs = n" and "i < n \<Longrightarrow> configure_plot u dfs i = Inr (cs ! i)"
proof -
  from configure_plots_Inr [OF assms]
  have l: "list_all2 (\<lambda>i c. configure_plot u dfs i = Inr c) [0..<n] cs" .
  then show "length cs = n" by (simp add: list_all2_conv_all_nth)
  assume "i < n"
  with l show "configure_plot u dfs i = Inr (cs ! i)"
    by (auto simp: list_all2_conv_all_nth)
qed

lemma generate_plots_Inr:
  "generate_plots cs = (Inr figs, msgs) \<Longrightarrow>
   list_all2 (\<lambda>c fig. fst (plot_data (cfg_df c) (cfg_x_axis c) (cfg_y_axis c) (cfg_title c)
       (cfg_plot_type c)) = Inr fig) cs figs"
  by (induction cs arbitrary: figs msgs) (auto split: prod.splits sum.splits)

lemma plot_data_title:
  "fst (plot_data d x y t m) = Inr fig \<Longrightarrow> fig = Figure [] \<or> title (fig_layout fig) = Some t"
  by (auto simp: plot_data_def update_layout_def split: if_splits sum.splits)

lemma main_Dashboard:
  assumes "main rc rx u files = (Inr (Dashboard dfs cs figs), msgs)"
  shows "files \<noteq> []"
    and "dfs = fst (load_dataframes rc rx files)"
    and "configure_plots u dfs [0..<num_plots u] = Inr cs"
    and "button u \<Longrightarrow> \<exists>m. generate_plots cs = (Inr figs, m)"
    and "\<not> button u \<Longrightarrow> figs = []"
  using assms
  by (auto simp: main_def main_body_def split: if_splits prod.splits sum.splits)

text \<open>
  Claim C7. Whenever a run of \<^verbatim>\<open>main\<close> shows the dashboard, it holds one
  configuration per slot; the source, the X column and the Y column of slot \<open>i\<close> are
  the values its three select boxes return in this run; and the title is
  \<^verbatim>\<open>{source} - {y} vs {x}\<close> made of these three values. The title is computed from
  them in every run and read from no widget, so it changes with them and cannot be set
  on its own. When the button is pressed, every figure drawn carries the title of its
  configuration (the figure of an unknown plot type is \<^verbatim>\<open>go.Figure()\<close>).
\<close>

theorem main_plot_titles:
  assumes "main rc rx u files = (Inr (Dashboard dfs configs figs), msgs)"
  shows "length configs = num_plots u
       \<and> (\<forall>i < num_plots u.
            cfg_file_name (configs ! i) = selectbox u (file_name_key i) (map fst dfs)
          \<and> cfg_x_axis (configs ! i) =
              selectbox u (x_axis_key i) (columns (cfg_df (configs ! i)))
          \<and> cfg_y_axis (configs ! i) =
              selectbox u (y_axis_key i) (columns (cfg_df (configs ! i)))
          \<and> cfg_title (configs ! i) =
              py_str (cfg_file_name (configs ! i)) @ '' - '' @ py_str (cfg_y_axis (configs ! i))
                @ '' vs '' @ py_str (cfg_x_axis (configs ! i)))
       \<and> (button u \<longrightarrow>
            list_all2 (\<lambda>c fig. fig = Figure [] \<or> title (fig_layout fig) = Some (cfg_title c))
              configs figs)"
proof -
  note m = main_Dashboard [OF assms]
  note r = configure_plots_range [OF m(3)]
  have slots: "\<forall>i < num_plots u.
            cfg_file_name (configs ! i) = selectbox u (file_name_key i) (map fst dfs)
          \<and> cfg_x_axis (configs ! i) =
              selectbox u (x_axis_key i) (columns (cfg_df (configs ! i)))
          \<and> cfg_y_axis (configs ! i) =
              selectbox u (y_axis_key i) (columns (cfg_df (configs ! i)))
          \<and> cfg_title (configs ! i) =
              py_str (cfg_file_name (configs ! i)) @ '' - '' @ py_str (cfg_y_axis (configs ! i))
                @ '' vs '' @ py_str (cfg_x_axis (configs ! i))"
    using r(2) configure_plot_Inr [of u dfs] by blast
  have figs: "button u \<longrightarrow>
      list_all2 (\<lambda>c fig. fig = Figure [] \<or> title (fig_layout fig) = Some (cfg_title c))
        configs figs"
  proof
    assume "button u"
    with m(4) obtain ms where "generate_plots configs = (Inr figs, ms)" by blast
    from generate_plots_Inr [OF this] show
      "list_all2 (\<lambda>c fig. fig = Figure [] \<or> title (fig_layout fig) = Some (cfg_title c))
        configs figs"
      by (rule list_all2_mono) (rule plot_data_title)
  qed
  from r(1) slots figs show ?thesis by blast
qed

lemma scenario_loaded:
  "load_dataframes table_reader table_reader scenario_uploads =
     ([(''a.csv'', [(''t'', [0, 1, 2, 3, 4]), (''v1'', [5, 3, 4, 8, 1])]),
       (''b.csv'', [(''t'', [0, 1, 2, 3, 4]), (''v2'', [7, 7, 2, 0, 6])])], [])"
  by (simp add: load_dataframes_def load_file_def endswith_def scenario_uploads_def
      table_reader_def)

lemma scenario_main:
  "main table_reader table_reader sample_ui scenario_uploads =
    (Inr (Dashboard
       [(''a.csv'', [(''t'', [0, 1, 2, 3, 4]), (''v1'', [5, 3, 4, 8, 1])]),
        (''b.csv'', [(''t'', [0, 1, 2, 3, 4]), (''v2'', [7, 7, 2, 0, 6])])]
       [\<lparr>cfg_file_name = Some ''a.csv'', cfg_x_axis = Some ''t'', cfg_y_axis = Some ''v1'',
          cfg_plot_type = Some ''Line Plot'',
          cfg_df = [(''t'', [0, 1, 2, 3, 4]), (''v1'', [5, 3, 4, 8, 1])],
          cfg_title = ''a.csv - v1 vs t''\<rparr>,
        \<lparr>cfg_file_name = Some ''b.csv'', cfg_x_axis = Some ''t'', cfg_y_axis = Some ''v2'',
          cfg_plot_type = Some ''Scatter Plot'',
          cfg_df = [(''t'', [0, 1, 2, 3, 4]), (''v2'', [7, 7, 2, 0, 6])],
          cfg_title = ''b.csv - v2 vs t''\<rparr>]
       [update_layout
          (Figure [\<lparr>trace_x = [0, 1, 2, 3, 4], trace_y = [5, 3, 4, 8, 1],
             trace_mode = ''lines''\<rparr>])
          ''a.csv - v1 vs t'' (Some ''t'') (Some ''v1''),
        update_layout
          (Figure [\<lparr>trace_x = [0, 1, 2, 3, 4], trace_y = [7, 7, 2, 0, 6],
             trace_mode = ''markers''\<rparr>])
          ''b.csv - v2 vs t'' (Some ''t'') (Some ''v2'')]), [])"
proof -
  have "scenario_uploads \<noteq> []" by (simp add: scenario_uploads_def)
  then show ?thesis
    by (simp add: main_def main_body_def scenario_loaded available_columns_def
        concat_columns_def columns_def unique_def sample_ui_def nth_option_def
        configure_plot_def getitem_def plot_data_def scatter_figure_def upt_rec)
qed

theorem main_plot_titles_witness:
  "(case main table_reader table_reader sample_ui scenario_uploads of
      (Inr (Dashboard dfs configs figs), msgs) \<Rightarrow>
        length configs = 2
      \<and> map cfg_title configs = [''a.csv - v1 vs t'', ''b.csv - v2 vs t'']
      \<and> map (\<lambda>fig. title (fig_layout fig)) figs =
          [Some ''a.csv - v1 vs t'', Some ''b.csv - v2 vs t'']
    | _ \<Rightarrow> False)"
proof -
  from main_plot_titles [OF scenario_main]
  have "length [\<lparr>cfg_file_name = Some ''a.csv'', cfg_x_axis = Some ''t'', cfg_y_axis = Some ''v1'',
          cfg_plot_type = Some ''Line Plot'',
          cfg_df = [(''t'', [0, 1, 2, 3, 4 :: int]), (''v1'', [5, 3, 4, 8, 1])],
          cfg_title = ''a.csv - v1 vs t''\<rparr>,
        \<lparr>cfg_file_name = Some ''b.csv'', cfg_x_axis = Some ''t'', cfg_y_axis = Some ''v2'',
          cfg_plot_type = Some ''Scatter Plot'',
          cfg_df = [(''t'', [0, 1, 2, 3, 4]), (''v2'', [7, 7, 2, 0, 6])],
          cfg_title = ''b.csv - v2 vs t''\<rparr>] = num_plots sample_ui"
    by blast
  then show ?thesis
    by (simp add: scenario_main update_layout_def)
qed

section \<open>Columns of the chosen source\<close>

lemma blank_main:
  "main table_reader table_reader sample_ui blank_upload = (Inl (KeyError None), [])"
proof -
  have "blank_upload \<noteq> []" by (simp add: blank_upload_def)
  moreover have "load_dataframes table_reader table_reader blank_upload =
      ([(''empty.xlsx'', [])], [])"
    by (simp add: load_dataframes_def load_file_def endswith_def blank_upload_def
        table_reader_def)
  ultimately show ?thesis
    by (simp add: main_def main_body_def available_columns_def
        concat_columns_def columns_def sample_ui_def nth_option_def
        configure_plot_def getitem_def plot_data_def scatter_figure_def upt_rec)
qed

lemma mixed_loaded:
  "load_dataframes table_reader table_reader mixed_uploads =
     ([(''empty.xlsx'', []), (''a.csv'', [(''t'', [0, 1, 2]), (''v1'', [5, 3, 4])])], [])"
  by (simp add: load_dataframes_def load_file_def endswith_def mixed_uploads_def
      table_reader_def)

lemma stale_main:
  "main table_reader table_reader stale_ui mixed_uploads = (Inl (KeyError None), [])"
proof -
  have "mixed_uploads \<noteq> []" by (simp add: mixed_uploads_def)
  then show ?thesis
    by (simp add: main_def main_body_def mixed_loaded available_columns_def
        concat_columns_def columns_def unique_def stale_ui_def nth_option_def
        configure_plot_def getitem_def plot_data_def scatter_figure_def upt_rec)
qed

text \<open>
  Claim C3. \<^verbatim>\<open>main\<close> offers the columns of the source chosen in the same run as the
  options of the X and Y select boxes, and stores what they return without a check.
  Two runs in which a plot is drawn against a column its source does not have. In the
  first the only upload is a workbook whose sheet has no column: the X and Y select
  boxes have no option and return \<^verbatim>\<open>None\<close>, the configuration of slot 0 holds
  \<^verbatim>\<open>None\<close> for both, which is no column of its source, and the run ends with the
  KeyError of \<^verbatim>\<open>data[None]\<close> in \<^verbatim>\<open>plot_data\<close>. In the second the source of the
  slot is \<^verbatim>\<open>a.csv\<close>, with the columns \<^verbatim>\<open>t\<close> and \<^verbatim>\<open>v1\<close> on offer, and the X and Y
  select boxes hold no selection: the configuration holds \<^verbatim>\<open>None\<close> for both again
  and the run ends with the same KeyError.
\<close>

theorem main_column_missing_at_render:
  "fst (load_dataframes table_reader table_reader blank_upload) = [(''empty.xlsx'', [])]
   \<and> configure_plot sample_ui [(''empty.xlsx'', ([] :: int dataframe))] 0 =
       Inr \<lparr>cfg_file_name = Some ''empty.xlsx'', cfg_x_axis = None, cfg_y_axis = None,
            cfg_plot_type = Some ''Line Plot'', cfg_df = [],
            cfg_title = ''empty.xlsx - None vs None''\<rparr>
   \<and> None \<notin> Some ` set (columns ([] :: int dataframe))
   \<and> main table_reader table_reader sample_ui blank_upload = (Inl (KeyError None), [])
   \<and> configure_plot stale_ui
         (fst (load_dataframes table_reader table_reader mixed_uploads)) 0 =
       Inr \<lparr>cfg_file_name = Some ''a.csv'', cfg_x_axis = None, cfg_y_axis = None,
            cfg_plot_type = Some ''Line Plot'',
            cfg_df = [(''t'', [0, 1, 2]), (''v1'', [5, 3, 4])],
            cfg_title = ''a.csv - None vs None''\<rparr>
   \<and> columns [(''t'', [0, 1, 2 :: int]), (''v1'', [5, 3, 4])] = [''t'', ''v1'']
   \<and> main table_reader table_reader stale_ui mixed_uploads = (Inl (KeyError None), [])"
proof -
  have a: "fst (load_dataframes table_reader table_reader blank_upload) = [(''empty.xlsx'', [])]"
    by (simp add: load_dataframes_def load_file_def endswith_def blank_upload_def
        table_reader_def)
  have b: "configure_plot sample_ui [(''empty.xlsx'', ([] :: int dataframe))] 0 =
       Inr \<lparr>cfg_file_name = Some ''empty.xlsx'', cfg_x_axis = None, cfg_y_axis = None,
            cfg_plot_type = Some ''Line Plot'', cfg_df = [],
            cfg_title = ''empty.xlsx - None vs None''\<rparr>"
    by (simp add: configure_plot_def sample_ui_def nth_option_def getitem_def columns_def)
  have c: "None \<notin> Some ` set (columns ([] :: int dataframe))" by simp
  have d: "configure_plot stale_ui
         (fst (load_dataframes table_reader table_reader mixed_uploads)) 0 =
       Inr \<lparr>cfg_file_name = Some ''a.csv'', cfg_x_axis = None, cfg_y_axis = None,
            cfg_plot_type = Some ''Line Plot'',
            cfg_df = [(''t'', [0, 1, 2]), (''v1'', [5, 3, 4])],
            cfg_title = ''a.csv - None vs None''\<rparr>"
    by (simp add: mixed_loaded configure_plot_def stale_ui_def nth_option_def getitem_def
        columns_def)
  have e: "columns [(''t'', [0, 1, 2 :: int]), (''v1'', [5, 3, 4])] = [''t'', ''v1'']"
    by (simp add: columns_def)
  from a b c blank_main d e stale_main show ?thesis by blast
qed

section \<open>A run in which no file is loaded\<close>

lemma main_nothing_loaded:
  assumes "files \<noteq> []" and "fst (load_dataframes rc rx files) = []"
  shows "fst (main rc rx u files) = Inl (ValueError ''No objects to concatenate'')"
  using assms
  by (cases "load_dataframes rc rx files")
     (simp add: main_def available_columns_def concat_columns_def)

text \<open>
  Claim C2. One file is uploaded and cannot be decoded: \<^verbatim>\<open>load_dataframes\<close> returns
  the empty dictionary and one message, \<^verbatim>\<open>main\<close> goes on to \<^verbatim>\<open>pd.concat\<close>, and
  the run ends with the uncaught ValueError of \<^verbatim>\<open>pd.concat\<close> on no frame.
  The lemma before it is the same for every upload of which nothing is loaded.
\<close>

theorem main_no_dataset_loaded:
  "load_dataframes table_reader table_reader unreadable_upload =
     ([], [''Error loading empty.csv: No columns to parse from file''])
   \<and> main table_reader table_reader sample_ui unreadable_upload =
       (Inl (ValueError ''No objects to concatenate''),
        [''Error loading empty.csv: No columns to parse from file''])"
proof -
  have a: "load_dataframes table_reader table_reader unreadable_upload =
     ([], [''Error loading empty.csv: No columns to parse from file''])"
    by (simp add: load_dataframes_def load_file_def endswith_def unreadable_upload_def
        table_reader_def)
  have "unreadable_upload \<noteq> []" by (simp add: unreadable_upload_def)
  with a show ?thesis
    by (simp add: main_def available_columns_def concat_columns_def)
qed

section \<open>The column catalog\<close>

lemma remdups_append_filter:
  "remdups (xs @ ys) = remdups (filter (\<lambda>x. x \<notin> set ys) xs) @ remdups ys"
  by (induction xs) auto

lemma first_seen_Cons:
  "rev (remdups (rev (x # ys))) = x # rev (remdups (rev (filter (\<lambda>y. y \<noteq> x) ys)))"
proof -
  have "remdups (rev ys @ [x]) = remdups (filter (\<lambda>y. y \<notin> set [x]) (rev ys)) @ remdups [x]"
    by (rule remdups_append_filter)
  then show ?thesis by (simp add: rev_filter)
qed

lemma unique_loop:
  "foldl (\<lambda>uniques val. if val \<in> set uniques then uniques else uniques @ [val]) acc xs =
     acc @ rev (remdups (rev (filter (\<lambda>x. x \<notin> set acc) xs)))"
proof (induction xs arbitrary: acc)
  case Nil
  show ?case by simp
next
  case (Cons x xs)
  show ?case
  proof (cases "x \<in> set acc")
    case True
    with Cons.IH [of acc] show ?thesis by simp
  next
    case False
    have f: "filter (\<lambda>y. y \<noteq> x) (filter (\<lambda>y. y \<notin> set acc) xs) =
        filter (\<lambda>y. y \<notin> set (acc @ [x])) xs"
      by (induction xs) auto
    have "foldl (\<lambda>uniques val. if val \<in> set uniques then uniques else uniques @ [val]) acc
        (x # xs) =
      foldl (\<lambda>uniques val. if val \<in> set uniques then uniques else uniques @ [val])
        (acc @ [x]) xs"
      using False by simp
    also have "\<dots> = (acc @ [x]) @ rev (remdups (rev (filter (\<lambda>y. y \<notin> set (acc @ [x])) xs)))"
      by (rule Cons.IH)
    also have "\<dots> = acc @ rev (remdups (rev (x # filter (\<lambda>y. y \<notin> set acc) xs)))"
      unfolding first_seen_Cons f by simp
    also have "x # filter (\<lambda>y. y \<notin> set acc) xs = filter (\<lambda>y. y \<notin> set acc) (x # xs)"
      using False by simp
    finally show ?thesis .
  qed
qed

lemma unique_first_seen: "unique xs = rev (remdups (rev xs))"
  using unique_loop [of "[]" xs] by (simp add: unique_def)

lemma first_seen_absorb:
  assumes "distinct c" and "set ys \<subseteq> set c"
  shows "rev (remdups (rev (c @ ys))) = c"
proof -
  have "remdups (rev ys @ rev c) =
      remdups (filter (\<lambda>x. x \<notin> set (rev c)) (rev ys)) @ remdups (rev c)"
    by (rule remdups_append_filter)
  moreover from assms(2) have "filter (\<lambda>x. x \<notin> set (rev c)) (rev ys) = []"
    by (auto simp: filter_empty_conv)
  moreover from assms(1) have "remdups (rev c) = rev c"
    by (simp add: distinct_remdups_id)
  ultimately show ?thesis by simp
qed

lemma first_seen_twice: "rev (remdups (rev (xs @ xs))) = rev (remdups (rev xs))"
proof -
  have "remdups (rev xs @ rev xs) =
      remdups (filter (\<lambda>x. x \<notin> set (rev xs)) (rev xs)) @ remdups (rev xs)"
    by (rule remdups_append_filter)
  moreover have "filter (\<lambda>x. x \<notin> set (rev xs)) (rev xs) = []"
    by (auto simp: filter_empty_conv)
  ultimately show ?thesis by simp
qed

lemma concat_columns_first_seen:
  assumes "frames \<noteq> []" and "\<forall>df \<in> set frames. distinct (columns df)"
  shows "concat_columns frames = Inr (rev (remdups (rev (concat (map columns frames)))))"
proof -
  from assms(1) obtain first others where fr: "frames = first # others"
    by (cases frames) auto
  show ?thesis
  proof (cases "list_all (\<lambda>df. columns df = columns first) others")
    case True
    then have "set (concat (map columns others)) \<subseteq> set (columns first)"
      by (auto simp: list_all_iff)
    moreover from assms(2) fr have "distinct (columns first)" by simp
    ultimately have "rev (remdups (rev (columns first @ concat (map columns others)))) =
        columns first"
      by (rule first_seen_absorb [rotated])
    with True fr show ?thesis by (simp add: concat_columns_def)
  next
    case False
    moreover from assms(2) fr have "list_all (\<lambda>df. distinct (columns df)) (first # others)"
      by (simp add: list_all_iff)
    ultimately show ?thesis
      using fr by (simp add: concat_columns_def unique_first_seen)
  qed
qed

lemma main_body_catalog: "main_body cols u dfs errs = main_body cols' u dfs errs"
  by (simp add: main_body_def)

text \<open>
  Claim C6. For a non-empty dictionary of DataFrames, each with pairwise different
  column names (the decoders of pandas rename a repeated header), the catalog is
  computed, and it is the column names of all DataFrames in dictionary order, each name
  kept where it is first seen (the list is reversed, \<open>remdups\<close> keeps the last
  occurrence, and the result is reversed again); so it has no duplicate and its set is
  the union of the column sets. It depends on the column names only, so computing it
  again from the same input gives the same catalog, and so does running the DataFrames
  through twice. The rest of \<^verbatim>\<open>main\<close> gives the same result for any two catalogs:
  no select box and no figure reads a value from it.
\<close>

theorem available_columns_first_seen_union:
  assumes "dataframes \<noteq> []"
    and "\<forall>df \<in> snd ` set dataframes. distinct (columns df)"
  shows "available_columns dataframes =
           Inr (rev (remdups (rev (concat (map (columns \<circ> snd) dataframes)))))
       \<and> (\<exists>cols. available_columns dataframes = Inr cols \<and> distinct cols
            \<and> set cols = (\<Union>df \<in> snd ` set dataframes. set (columns df)))
       \<and> (map (columns \<circ> snd) dataframes' = map (columns \<circ> snd) dataframes \<longrightarrow>
            available_columns dataframes' = available_columns dataframes)
       \<and> available_columns (dataframes @ dataframes) = available_columns dataframes
       \<and> main_body cols u dataframes errors = main_body cols' u dataframes errors"
proof -
  let ?names = "concat (map (columns \<circ> snd) dataframes)"
  from assms have a: "map snd dataframes \<noteq> []"
    and b: "\<forall>df \<in> set (map snd dataframes). distinct (columns df)"
    by simp_all
  have one: "available_columns dataframes = Inr (rev (remdups (rev ?names)))"
    using concat_columns_first_seen [OF a b] by (simp add: available_columns_def)
  have "set (rev (remdups (rev ?names))) = (\<Union>df \<in> snd ` set dataframes. set (columns df))"
    by auto
  moreover have "distinct (rev (remdups (rev ?names)))" by simp
  ultimately have two: "\<exists>cols. available_columns dataframes = Inr cols \<and> distinct cols
      \<and> set cols = (\<Union>df \<in> snd ` set dataframes. set (columns df))"
    using one by blast
  have three: "map (columns \<circ> snd) dataframes' = map (columns \<circ> snd) dataframes \<longrightarrow>
      available_columns dataframes' = available_columns dataframes"
  proof
    assume e: "map (columns \<circ> snd) dataframes' = map (columns \<circ> snd) dataframes"
    then have e': "map columns (map snd dataframes') = map columns (map snd dataframes)"
      by simp
    from e a have a': "map snd dataframes' \<noteq> []" by auto
    have "columns ` set (map snd dataframes') = columns ` set (map snd dataframes)"
      using e' by (metis list.set_map)
    with b have b': "\<forall>df \<in> set (map snd dataframes'). distinct (columns df)"
      by (metis (no_types, lifting) image_iff)
    from concat_columns_first_seen [OF a' b'] concat_columns_first_seen [OF a b] e'
    show "available_columns dataframes' = available_columns dataframes"
      by (simp add: available_columns_def)
  qed
  from assms have a2: "map snd (dataframes @ dataframes) \<noteq> []"
    and b2: "\<forall>df \<in> set (map snd (dataframes @ dataframes)). distinct (columns df)"
    by simp_all
  have four: "available_columns (dataframes @ dataframes) = available_columns dataframes"
  proof -
    have "concat (map columns (map snd (dataframes @ dataframes))) = ?names @ ?names"
      by simp
    with concat_columns_first_seen [OF a2 b2]
    have "available_columns (dataframes @ dataframes) =
        Inr (rev (remdups (rev (?names @ ?names))))"
      by (simp only: available_columns_def)
    with one show ?thesis by (simp only: first_seen_twice)
  qed
  from one two three four main_body_catalog [of cols u dataframes errors cols']
  show ?thesis by blast
qed

theorem available_columns_first_seen_union_witness:
  "fst (load_dataframes table_reader table_reader scenario_uploads) \<noteq> []
   \<and> list_all (\<lambda>df. distinct (columns df))
       (map snd (fst (load_dataframes table_reader table_reader scenario_uploads)))
   \<and> available_columns (fst (load_dataframes table_reader table_reader scenario_uploads)) =
       Inr [''t'', ''v1'', ''v2'']"
proof -
  let ?dfs = "fst (load_dataframes table_reader table_reader scenario_uploads)"
  have a: "?dfs \<noteq> []" by (simp add: scenario_loaded)
  have b: "\<forall>df \<in> snd ` set ?dfs. distinct (columns df)"
    by (simp add: scenario_loaded columns_def)
  then have b': "list_all (\<lambda>df. distinct (columns df)) (map snd ?dfs)"
    by (simp add: list_all_iff)
  from available_columns_first_seen_union [OF a b]
  have "available_columns ?dfs = Inr (rev (remdups (rev (concat (map (columns \<circ> snd) ?dfs)))))"
    by blast
  also have "\<dots> = Inr [''t'', ''v1'', ''v2'']"
    by (simp add: scenario_loaded columns_def)
  finally show ?thesis using a b' by blast
qed

end
